theory Spec2Isabelle
  imports Main
begin

section \<open>MLHD cleaning script: data model\<close>

text \<open>
  The script \<^verbatim>\<open>clean_master_multithreaded.py\<close> resolves the recording identifiers of
  listening-history tables against four MusicBrainz reference tables and writes the
  cleaned tables back, batch by batch.

  A cell of an identifier column holds a string, numpy's \<^verbatim>\<open>nan\<close> or Python's
  \<^verbatim>\<open>None\<close>. \<open>NaN\<close> stands for the object \<^verbatim>\<open>numpy.nan\<close> that the script imports
  and tests with \<^verbatim>\<open>is not nan\<close>.
\<close>

datatype cell = Str string | NaN | PyNone

text \<open>
  The reference tables, as the script holds them after loading: \<^verbatim>\<open>rec_gid_set\<close> is a set
  of identifier strings; the other three are tables indexed by an identifier string. The
  maps below stand for the indexed table restricted to the column that is read
  (\<^verbatim>\<open>'new'\<close> for the redirect and canonical tables, the artist and release columns for
  the artist credit table).
\<close>

record mb_tables =
  rec_gid_set :: "string set"
  MB_rec_redirects :: "string \<rightharpoonup> string"
  MB_rec_canonical :: "string \<rightharpoonup> string"
  MB_artist_credit_list :: "string \<rightharpoonup> string \<times> string"

text \<open>
  A listening event: the four columns
  \<^verbatim>\<open><timestamp, artist_MBID, release_MBID, recording_MBID>\<close> of the input dataframe.
  A dataframe is the list of its rows, in index order.
\<close>

record row =
  timestamp :: int
  artist_MBID :: cell
  release_MBID :: cell
  recording_MBID :: cell

type_synonym dataframe = "row list"

section \<open>The I/O module\<close>

text \<open>
  The script calls the module \<^verbatim>\<open>lib/io_.py\<close> (imported as \<^verbatim>\<open>io\<close>), whose code
  is not available. The functions of the module that the script calls are the
  fields of a record, so that a call \<^verbatim>\<open>io.replace(x, MB_rec_redirects, 'new')\<close> of the
  script reads \<open>replace io x (MB_rec_redirects T)\<close> here, and every property of the
  script is stated for an arbitrary module, under the assumptions on the module that it
  needs. Paths are strings.
\<close>

record io_lib =
  replace :: "cell \<Rightarrow> (string \<rightharpoonup> string) \<Rightarrow> cell"
  replace_multi :: "cell \<Rightarrow> (string \<rightharpoonup> string \<times> string) \<Rightarrow> cell \<times> cell"
  load_path :: "string \<Rightarrow> dataframe"
  write_frame :: "dataframe \<Rightarrow> string \<Rightarrow> string"

text \<open>
  Modelled from the spec: \<^verbatim>\<open>io.replace\<close> of \<^verbatim>\<open>lib/io_.py\<close>, which is missing.
  The specification describes the lookup of steps 1 and 2 as: look the id up in the table
  and replace it with the mapped "new" value if present; otherwise leave it unchanged (a
  missing lookup keeps the current value). Lookups are exact matches on identifier strings,
  so a cell that is not a string is never found.
\<close>

definition spec_replace :: "cell \<Rightarrow> (string \<rightharpoonup> string) \<Rightarrow> cell" where
  "spec_replace x df =
     (case x of
        Str s \<Rightarrow> (case df s of Some v \<Rightarrow> Str v | None \<Rightarrow> x)
      | _ \<Rightarrow> x)"

text \<open>
  Modelled from the spec: \<^verbatim>\<open>io.replace_multi\<close> of \<^verbatim>\<open>lib/io_.py\<close>, which is
  missing. The specification describes step 3 as: look the id up in the artist/release
  table; if found, return the associated artist id and release id (a pair); if not found,
  return a null pair.
\<close>

definition spec_replace_multi ::
  "cell \<Rightarrow> (string \<rightharpoonup> string \<times> string) \<Rightarrow> cell \<times> cell" where
  "spec_replace_multi x df =
     (case x of
        Str s \<Rightarrow> (case df s of Some (a, r) \<Rightarrow> (Str a, Str r) | None \<Rightarrow> (PyNone, PyNone))
      | _ \<Rightarrow> (PyNone, PyNone))"

text \<open>
  What the properties below assume of a lookup helper. A hit returns the mapped value. The
  script itself compares the result of \<^verbatim>\<open>io.replace\<close> with \<^verbatim>\<open>nan\<close> in step 2, so
  a miss is allowed to return \<^verbatim>\<open>nan\<close> as well as the value looked up.
\<close>

definition no_entry :: "cell \<Rightarrow> (string \<rightharpoonup> 'v) \<Rightarrow> bool" where
  "no_entry x df = (case x of Str s \<Rightarrow> df s = None | _ \<Rightarrow> True)"

definition returns_mapped_value :: "(cell \<Rightarrow> (string \<rightharpoonup> string) \<Rightarrow> cell) \<Rightarrow> bool" where
  "returns_mapped_value rep = (\<forall>s df v. df s = Some v \<longrightarrow> rep (Str s) df = Str v)"

definition miss_is_nan_or_same :: "(cell \<Rightarrow> (string \<rightharpoonup> string) \<Rightarrow> cell) \<Rightarrow> bool" where
  "miss_is_nan_or_same rep = (\<forall>x df. no_entry x df \<longrightarrow> rep x df = NaN \<or> rep x df = x)"

text \<open>
  The test \<^verbatim>\<open>x in rec_gid_set\<close>: the set holds strings only, so \<^verbatim>\<open>nan\<close> and
  \<^verbatim>\<open>None\<close> are never members.
\<close>

definition in_gid_set :: "cell \<Rightarrow> string set \<Rightarrow> bool" where
  "in_gid_set x S = (case x of Str s \<Rightarrow> s \<in> S | _ \<Rightarrow> False)"

section \<open>The record processor\<close>

text \<open>
  The three lambdas that \<^verbatim>\<open>process_df\<close> maps over the recording column.
  Step 1: \<^verbatim>\<open>io.replace(x, MB_rec_redirects, 'new') if x not in rec_gid_set else x\<close>.
\<close>

definition redirect_step :: "io_lib \<Rightarrow> mb_tables \<Rightarrow> cell \<Rightarrow> cell" where
  "redirect_step io T x =
     (if \<not> in_gid_set x (rec_gid_set T) then replace io x (MB_rec_redirects T) else x)"

text \<open>
  Step 2: \<^verbatim>\<open>io.replace(x, MB_rec_canonical, 'new')
  if io.replace(x, MB_rec_canonical, 'new') is not nan else x\<close>.
\<close>

definition canonical_step :: "io_lib \<Rightarrow> mb_tables \<Rightarrow> cell \<Rightarrow> cell" where
  "canonical_step io T x =
     (if replace io x (MB_rec_canonical T) \<noteq> NaN then replace io x (MB_rec_canonical T)
      else x)"

text \<open>Step 3: \<^verbatim>\<open>io.replace_multi(x, MB_artist_credit_list)\<close>.\<close>

definition artist_release_step :: "io_lib \<Rightarrow> mb_tables \<Rightarrow> cell \<Rightarrow> cell \<times> cell" where
  "artist_release_step io T x = replace_multi io x (MB_artist_credit_list T)"

text \<open>
  Column operations of pandas on a list of rows:
  \<^verbatim>\<open>df['recording_MBID'] = df['recording_MBID'].map(f)\<close> rewrites the recording cell of
  every row, and \<^verbatim>\<open>df[['artist_MBID', 'release_MBID']] = pd.DataFrame(pairs, ...)\<close> with
  the index of \<^verbatim>\<open>df\<close> writes the two components of the pair at each position into that
  row (the new frame carries the index of \<^verbatim>\<open>df\<close>, so the assignment is positional).
\<close>

definition map_recording :: "(cell \<Rightarrow> cell) \<Rightarrow> dataframe \<Rightarrow> dataframe" where
  "map_recording f df = map (\<lambda>r. r\<lparr>recording_MBID := f (recording_MBID r)\<rparr>) df"

definition assign_artist_release :: "dataframe \<Rightarrow> (cell \<times> cell) list \<Rightarrow> dataframe" where
  "assign_artist_release df pairs =
     map (\<lambda>(r, p). r\<lparr>artist_MBID := fst p, release_MBID := snd p\<rparr>) (zip df pairs)"

text \<open>
  \<^verbatim>\<open>process_df\<close>. The flags \<^verbatim>\<open>keep_missing\<close> and \<^verbatim>\<open>turn_blank\<close> are accepted and
  never read. The elapsed wall-clock time that is appended to
  \<^verbatim>\<open>process_timings_list\<close> is a reading of the system clock and is left out: it
  influences neither the table nor the control flow.
\<close>

definition process_df :: "io_lib \<Rightarrow> mb_tables \<Rightarrow> dataframe \<Rightarrow> dataframe" where
  "process_df io T df_input =
     (let df1 = map_recording (redirect_step io T) df_input;
          df2 = map_recording (canonical_step io T) df1;
          artist_release_mbids = map (\<lambda>r. artist_release_step io T (recording_MBID r)) df2
      in assign_artist_release df2 artist_release_mbids)"

section \<open>Batching and the driver\<close>

datatype error = ValueError | ZeroDivisionError

text \<open>
  Python's \<^verbatim>\<open>range(start, stop, step)\<close> as a list: a zero step raises ValueError, and
  the number of elements is \<open>\<lceil>(stop - start) / step\<rceil>\<close>, or none when that is negative.
\<close>

definition py_range :: "int \<Rightarrow> int \<Rightarrow> int \<Rightarrow> error + int list" where
  "py_range start stop step =
     (if step = 0 then Inl ValueError
      else if 0 < step then
        Inr (map (\<lambda>k. start + int k * step) [0..<nat ((stop - start + step - 1) div step)])
      else
        Inr (map (\<lambda>k. start + int k * step)
               [0..<nat ((start - stop - step - 1) div (- step))]))"

text \<open>
  Python's slice \<^verbatim>\<open>xs[i:j]\<close>: a negative bound counts from the end, and both bounds are
  clipped to the list.
\<close>

definition py_slice :: "'a list \<Rightarrow> int \<Rightarrow> int \<Rightarrow> 'a list" where
  "py_slice xs i j =
     (let n = int (length xs);
          lo = max 0 (min n (if i < 0 then i + n else i));
          hi = max 0 (min n (if j < 0 then j + n else j))
      in take (nat (hi - lo)) (drop (nat lo) xs))"

text \<open>
  \<^verbatim>\<open>chunker = lambda input_list, batch_size:
  [input_list[i:i+batch_size] for i in range(0, len(input_list), batch_size)]\<close>
\<close>

definition chunker :: "'a list \<Rightarrow> int \<Rightarrow> error + 'a list list" where
  "chunker input_list batch_size =
     (case py_range 0 (int (length input_list)) batch_size of
        Inl e \<Rightarrow> Inl e
      | Inr idx \<Rightarrow> Inr (map (\<lambda>i. py_slice input_list i (i + batch_size)) idx))"

text \<open>
  The effects of a run are recorded as a trace of events, in the order in which the calls
  happen: \<^verbatim>\<open>io.load_path(path)\<close>, a call of \<^verbatim>\<open>process_df\<close> on a loaded table,
  \<^verbatim>\<open>io.write_frame(df, path)\<close>, \<^verbatim>\<open>io.log_output\<close> with the list of written paths, and
  \<^verbatim>\<open>io.write_log\<close>, which persists the accumulated log.
\<close>

datatype event =
    Load string
  | Process dataframe
  | Write dataframe string
  | LogOutput "string list"
  | WriteLog

type_synonym trace = "event list"

text \<open>\<^verbatim>\<open>load_chunk\<close>: loads the files of the batch one after the other.\<close>

fun load_chunk :: "io_lib \<Rightarrow> string list \<Rightarrow> trace \<Rightarrow> dataframe list \<times> trace" where
  "load_chunk io [] tr = ([], tr)"
| "load_chunk io (path # rest) tr =
     (let (output, tr') = load_chunk io rest (tr @ [Load path])
      in (load_path io path # output, tr'))"

text \<open>
  The driver builds \<^verbatim>\<open>df_list = map(lambda x: process_df(x, process_timings), df_list)\<close>.
  In Python 3 \<^verbatim>\<open>map\<close> returns an iterator: no call of \<^verbatim>\<open>process_df\<close> happens when the
  iterator is built, and each call happens when the consumer asks for the next element.
  The iterator is the list of its pending calls; a pending call takes the trace and
  returns the processed table and the trace extended by the call.
\<close>

type_synonym pending = "trace \<Rightarrow> dataframe \<times> trace"

definition pending_process_df :: "io_lib \<Rightarrow> mb_tables \<Rightarrow> dataframe \<Rightarrow> pending" where
  "pending_process_df io T x = (\<lambda>tr. (process_df io T x, tr @ [Process x]))"

text \<open>
  \<^verbatim>\<open>write_chunk\<close>: \<^verbatim>\<open>for df, path in zip(chunk, path_lists)\<close>. For each pair,
  \<^verbatim>\<open>zip\<close> first asks its first argument for the next element, which runs the
  pending call, and then its second argument; it stops when either has none left.
\<close>

fun write_chunk :: "io_lib \<Rightarrow> pending list \<Rightarrow> string list \<Rightarrow> trace \<Rightarrow> string list \<times> trace" where
  "write_chunk io [] path_lists tr = ([], tr)"
| "write_chunk io (p # chunk) [] tr = (let (df, tr1) = p tr in ([], tr1))"
| "write_chunk io (p # chunk) (path # path_lists) tr =
     (let (df, tr1) = p tr;
          out = write_frame io df path;
          (output, tr2) = write_chunk io chunk path_lists (tr1 @ [Write df path])
      in (out # output, tr2))"

text \<open>
  The two configuration constants that the driver reads, \<^verbatim>\<open>cmc.CHUNK_SIZE\<close> and
  \<^verbatim>\<open>config.LOG_EPOCH\<close>; the code of their modules is not available.
\<close>

record config =
  CHUNK_SIZE :: int
  LOG_EPOCH :: int

text \<open>
  The body of the driver's loop for one batch, and the loop. The state is the trace and
  \<^verbatim>\<open>file_counter\<close>; the messages on the console and the timing lists are left out.
  \<^verbatim>\<open>file_counter % LOG_EPOCH\<close> raises ZeroDivisionError for a zero epoch; the events
  that happened before remain.
\<close>

fun driver_loop ::
  "io_lib \<Rightarrow> mb_tables \<Rightarrow> config \<Rightarrow> string list list \<Rightarrow> trace \<times> int
     \<Rightarrow> error \<times> trace + trace \<times> int" where
  "driver_loop io T cfg [] (tr, file_counter) = Inr (tr, file_counter)"
| "driver_loop io T cfg (chunk # chunks) (tr, file_counter) =
     (let (df_list, tr1) = load_chunk io chunk tr;
          df_list' = map (pending_process_df io T) df_list;
          (write_paths, tr2) = write_chunk io df_list' chunk tr1;
          file_counter1 = file_counter + int (length chunk);
          file_counter2 = file_counter1 + 1;
          tr3 = tr2 @ [LogOutput write_paths]
      in if LOG_EPOCH cfg = 0 then Inl (ZeroDivisionError, tr3)
         else if file_counter2 mod LOG_EPOCH cfg = 0
           then driver_loop io T cfg chunks (tr3 @ [WriteLog], file_counter2)
           else driver_loop io T cfg chunks (tr3, file_counter2))"

definition driver :: "io_lib \<Rightarrow> mb_tables \<Rightarrow> config \<Rightarrow> string list \<Rightarrow> error \<times> trace + trace \<times> int" where
  "driver io T cfg path_list =
     (case chunker path_list (CHUNK_SIZE cfg) of
        Inl e \<Rightarrow> Inl (e, [])
      | Inr chunks \<Rightarrow> driver_loop io T cfg chunks ([], 0))"

text \<open>The calls of \<^verbatim>\<open>io.write_frame\<close> in a trace, in order: the table and the path.\<close>

fun writes :: "trace \<Rightarrow> (dataframe \<times> string) list" where
  "writes [] = []"
| "writes (Write df path # tr) = (df, path) # writes tr"
| "writes (e # tr) = writes tr"

text \<open>The trace of a run, whether it ended with an error or not.\<close>

definition trace_of :: "error \<times> trace + trace \<times> int \<Rightarrow> trace" where
  "trace_of res = (case res of Inl (e, tr) \<Rightarrow> tr | Inr (tr, n) \<Rightarrow> tr)"

text \<open>
  For each flush of the log (\<^verbatim>\<open>io.write_log\<close>) in a trace, the number of files written
  before it, counting from \<open>n\<close>.
\<close>

fun flushes_after :: "nat \<Rightarrow> trace \<Rightarrow> nat list" where
  "flushes_after n [] = []"
| "flushes_after n (Write df path # tr) = flushes_after (Suc n) tr"
| "flushes_after n (WriteLog # tr) = n # flushes_after n tr"
| "flushes_after n (e # tr) = flushes_after n tr"

text \<open>
  The events that \<^verbatim>\<open>write_chunk\<close> adds for a batch when it consumes the pending calls
  of \<^verbatim>\<open>process_df\<close>: each file is processed and written before the next is processed.
\<close>

definition process_write_events :: "io_lib \<Rightarrow> mb_tables \<Rightarrow> string list \<Rightarrow> trace" where
  "process_write_events io T chunk =
     concat (map (\<lambda>path. [Process (load_path io path),
                           Write (process_df io T (load_path io path)) path]) chunk)"

section \<open>Fixtures for running the model\<close>

text \<open>
  The reference tables of the specification's first end-to-end example, and an I/O module
  for running the driver on concrete paths: the lookup helpers are the ones modelled from
  the spec, a file holds one listening event whose recording id is the file's path, and a
  table is written under \<^verbatim>\<open>out/\<close>.
\<close>

definition example_tables :: mb_tables where
  "example_tables =
     \<lparr>rec_gid_set = {''A1''},
      MB_rec_redirects = [''R1'' \<mapsto> ''A1''],
      MB_rec_canonical = Map.empty,
      MB_artist_credit_list = [''A1'' \<mapsto> (''ART1'', ''REL1'')]\<rparr>"

definition example_io :: io_lib where
  "example_io =
     \<lparr>replace = spec_replace,
      replace_multi = spec_replace_multi,
      load_path = (\<lambda>path. [\<lparr>timestamp = 1, artist_MBID = PyNone, release_MBID = PyNone,
                             recording_MBID = Str path\<rparr>]),
      write_frame = (\<lambda>df path. ''out/'' @ path)\<rparr>"

text \<open>
  The reference tables of the specification's second end-to-end example, and a lookup
  helper that answers a miss with \<^verbatim>\<open>nan\<close>, the result that step 2 of the script
  compares with.
\<close>

definition example_tables2 :: mb_tables where
  "example_tables2 =
     \<lparr>rec_gid_set = {''A1''},
      MB_rec_redirects = Map.empty,
      MB_rec_canonical = [''A1'' \<mapsto> ''A2''],
      MB_artist_credit_list = [''A2'' \<mapsto> (''ART2'', ''REL2'')]\<rparr>"

definition nan_replace :: "cell \<Rightarrow> (string \<rightharpoonup> string) \<Rightarrow> cell" where
  "nan_replace x df =
     (case x of
        Str s \<Rightarrow> (case df s of Some v \<Rightarrow> Str v | None \<Rightarrow> NaN)
      | _ \<Rightarrow> NaN)"

definition nan_io :: io_lib where
  "nan_io = example_io\<lparr>replace := nan_replace\<rparr>"

text \<open>A table of two listening events: a redirected id and an id that no table knows.\<close>

definition example_df :: dataframe where
  "example_df =
     [\<lparr>timestamp = 10, artist_MBID = PyNone, release_MBID = PyNone,
       recording_MBID = Str ''R1''\<rparr>,
      \<lparr>timestamp = 20, artist_MBID = Str ''X'', release_MBID = Str ''Y'',
       recording_MBID = Str ''UNKNOWN''\<rparr>]"

section \<open>Properties of the record processor\<close>

lemma length_process_df: "length (process_df io T df) = length df"
  by (simp add: process_df_def Let_def assign_artist_release_def map_recording_def)

lemma process_df_nth:
  assumes "i < length df"
  shows "process_df io T df ! i =
    (df ! i)\<lparr>recording_MBID := canonical_step io T (redirect_step io T (recording_MBID (df ! i))),
      artist_MBID := fst (artist_release_step io T
         (canonical_step io T (redirect_step io T (recording_MBID (df ! i))))),
      release_MBID := snd (artist_release_step io T
         (canonical_step io T (redirect_step io T (recording_MBID (df ! i)))))\<rparr>"
  using assms
  by (simp add: process_df_def Let_def assign_artist_release_def map_recording_def)

lemma spec_replace_returns_mapped_value: "returns_mapped_value spec_replace"
  by (simp add: returns_mapped_value_def spec_replace_def)

lemma spec_replace_miss: "miss_is_nan_or_same spec_replace"
  by (auto simp: miss_is_nan_or_same_def no_entry_def spec_replace_def split: cell.splits)

lemma example_io_simps:
  "replace example_io = spec_replace"
  "replace_multi example_io = spec_replace_multi"
  "write_frame example_io df path = ''out/'' @ path"
  "load_path example_io path =
     [\<lparr>timestamp = 1, artist_MBID = PyNone, release_MBID = PyNone, recording_MBID = Str path\<rparr>]"
  by (simp_all add: example_io_def)

lemma example_tables_simps:
  "rec_gid_set example_tables = {''A1''}"
  "MB_rec_redirects example_tables = [''R1'' \<mapsto> ''A1'']"
  "MB_rec_canonical example_tables = Map.empty"
  "MB_artist_credit_list example_tables = [''A1'' \<mapsto> (''ART1'', ''REL1'')]"
  by (simp_all add: example_tables_def)

text \<open>
  C2. Step 1 (redirect resolution): an id that is a member of the identity set is left
  unchanged, whatever the lookup helper does; an id that is not a member and has an entry
  in the redirect table becomes the table's mapped value, for every lookup helper that
  returns the mapped value of an entry it finds.
\<close>

theorem redirect_step_member_or_redirect:
  "(in_gid_set x (rec_gid_set T) \<longrightarrow> redirect_step io T x = x) \<and>
   (returns_mapped_value (replace io) \<and> \<not> in_gid_set (Str s) (rec_gid_set T) \<and>
      MB_rec_redirects T s = Some v \<longrightarrow> redirect_step io T (Str s) = Str v)"
  by (simp add: redirect_step_def returns_mapped_value_def)

theorem redirect_step_member_or_redirect_witness:
  "redirect_step example_io example_tables (Str ''A1'') = Str ''A1'' \<and>
   redirect_step example_io example_tables (Str ''R1'') = Str ''A1''"
proof -
  have member: "in_gid_set (Str ''A1'') (rec_gid_set example_tables)"
    by (simp add: in_gid_set_def example_tables_simps)
  have other: "returns_mapped_value (replace example_io) \<and>
      \<not> in_gid_set (Str ''R1'') (rec_gid_set example_tables) \<and>
      MB_rec_redirects example_tables ''R1'' = Some ''A1''"
    by (simp add: in_gid_set_def example_tables_simps example_io_simps
        spec_replace_returns_mapped_value)
  from redirect_step_member_or_redirect
    [of "Str ''A1''" example_tables example_io "''R1''" "''A1''"] member other
  show ?thesis by blast
qed

text \<open>
  C3. Step 2 (canonical resolution): an id with an entry in the canonical table becomes
  the mapped value, and an id without an entry is left unchanged. This holds for every
  lookup helper that returns the mapped value of an entry it finds and, on a miss, either
  \<^verbatim>\<open>nan\<close> or the id looked up.
\<close>

theorem canonical_step_mapped_or_unchanged:
  assumes "returns_mapped_value (replace io)" and "miss_is_nan_or_same (replace io)"
  shows "(MB_rec_canonical T s = Some v \<longrightarrow> canonical_step io T (Str s) = Str v) \<and>
         (no_entry y (MB_rec_canonical T) \<longrightarrow> canonical_step io T y = y)"
proof (intro conjI impI)
  assume "MB_rec_canonical T s = Some v"
  with assms(1) have "replace io (Str s) (MB_rec_canonical T) = Str v"
    by (simp add: returns_mapped_value_def)
  then show "canonical_step io T (Str s) = Str v"
    by (simp add: canonical_step_def)
next
  assume "no_entry y (MB_rec_canonical T)"
  with assms(2) have "replace io y (MB_rec_canonical T) = NaN \<or>
      replace io y (MB_rec_canonical T) = y"
    by (simp add: miss_is_nan_or_same_def)
  then show "canonical_step io T y = y"
    by (auto simp: canonical_step_def)
qed

lemma nan_replace_returns_mapped_value: "returns_mapped_value nan_replace"
  by (simp add: returns_mapped_value_def nan_replace_def)

lemma nan_replace_miss: "miss_is_nan_or_same nan_replace"
  by (auto simp: miss_is_nan_or_same_def no_entry_def nan_replace_def split: cell.splits)

lemma example_tables2_simps:
  "rec_gid_set example_tables2 = {''A1''}"
  "MB_rec_redirects example_tables2 = Map.empty"
  "MB_rec_canonical example_tables2 = [''A1'' \<mapsto> ''A2'']"
  "MB_artist_credit_list example_tables2 = [''A2'' \<mapsto> (''ART2'', ''REL2'')]"
  by (simp_all add: example_tables2_def)

lemma nan_io_simps:
  "replace nan_io = nan_replace"
  "replace_multi nan_io = spec_replace_multi"
  by (simp_all add: nan_io_def example_io_def)

theorem canonical_step_mapped_or_unchanged_witness:
  "canonical_step nan_io example_tables2 (Str ''A1'') = Str ''A2'' \<and>
   canonical_step nan_io example_tables2 (Str ''UNKNOWN'') = Str ''UNKNOWN''"
proof -
  have hit: "returns_mapped_value (replace nan_io)"
    by (simp add: nan_io_simps nan_replace_returns_mapped_value)
  have miss: "miss_is_nan_or_same (replace nan_io)"
    by (simp add: nan_io_simps nan_replace_miss)
  have entry: "MB_rec_canonical example_tables2 ''A1'' = Some ''A2''"
    by (simp add: example_tables2_simps)
  have none: "no_entry (Str ''UNKNOWN'') (MB_rec_canonical example_tables2)"
    by (simp add: no_entry_def example_tables2_simps)
  from canonical_step_mapped_or_unchanged
    [OF hit miss, of example_tables2 "''A1''" "''A2''" "Str ''UNKNOWN''"] entry none
  show ?thesis by blast
qed

text \<open>
  C9. An id that is a member of the identity set and that the canonical table does not map
  elsewhere (it has no entry, or its entry maps it to itself) is a fixed point of steps 1
  and 2, so running the steps again on the result returns it again. This holds for every
  lookup helper that returns the mapped value of an entry it finds and, on a miss, either
  \<^verbatim>\<open>nan\<close> or the id looked up.
\<close>

theorem resolution_fixed_point:
  assumes "returns_mapped_value (replace io)" and "miss_is_nan_or_same (replace io)"
    and "in_gid_set x (rec_gid_set T)"
    and "no_entry x (MB_rec_canonical T) \<or> (\<exists>s. x = Str s \<and> MB_rec_canonical T s = Some s)"
  shows "canonical_step io T (redirect_step io T x) = x \<and>
         canonical_step io T (redirect_step io T
           (canonical_step io T (redirect_step io T x))) = x"
proof -
  have step1: "redirect_step io T x = x"
    using assms(3) by (simp add: redirect_step_def)
  have step2: "canonical_step io T x = x"
    using assms(4)
  proof
    assume "no_entry x (MB_rec_canonical T)"
    with assms(2) have "replace io x (MB_rec_canonical T) = NaN \<or>
        replace io x (MB_rec_canonical T) = x"
      by (simp add: miss_is_nan_or_same_def)
    then show ?thesis by (auto simp: canonical_step_def)
  next
    assume "\<exists>s. x = Str s \<and> MB_rec_canonical T s = Some s"
    then obtain s where "x = Str s" and "MB_rec_canonical T s = Some s" by blast
    with assms(1) have "replace io x (MB_rec_canonical T) = x"
      by (simp add: returns_mapped_value_def)
    then show ?thesis by (simp add: canonical_step_def)
  qed
  show ?thesis by (simp add: step1 step2)
qed

theorem resolution_fixed_point_witness:
  "canonical_step nan_io example_tables (redirect_step nan_io example_tables (Str ''A1''))
     = Str ''A1'' \<and>
   canonical_step nan_io example_tables (redirect_step nan_io example_tables
     (canonical_step nan_io example_tables (redirect_step nan_io example_tables (Str ''A1''))))
     = Str ''A1''"
proof -
  have hit: "returns_mapped_value (replace nan_io)"
    by (simp add: nan_io_simps nan_replace_returns_mapped_value)
  have miss: "miss_is_nan_or_same (replace nan_io)"
    by (simp add: nan_io_simps nan_replace_miss)
  have member: "in_gid_set (Str ''A1'') (rec_gid_set example_tables)"
    by (simp add: in_gid_set_def example_tables_simps)
  have none: "no_entry (Str ''A1'') (MB_rec_canonical example_tables) \<or>
      (\<exists>s. Str ''A1'' = Str s \<and> MB_rec_canonical example_tables s = Some s)"
    by (simp add: no_entry_def example_tables_simps)
  show ?thesis
    by (rule resolution_fixed_point [OF hit miss member none])
qed

text \<open>
  C5. The output of \<^verbatim>\<open>process_df\<close> has as many rows as its input, and row \<open>i\<close> of the
  output is what \<^verbatim>\<open>process_df\<close> makes of row \<open>i\<close> of the input alone: the rows keep
  their positions. This holds for every I/O module.
\<close>

theorem process_df_preserves_rows:
  "length (process_df io T df) = length df \<and>
   (\<forall>i. i < length df \<longrightarrow> process_df io T df ! i = hd (process_df io T [df ! i]))"
proof (intro conjI allI impI)
  show "length (process_df io T df) = length df"
    by (rule length_process_df)
next
  fix i assume "i < length df"
  then show "process_df io T df ! i = hd (process_df io T [df ! i])"
    by (simp add: process_df_def Let_def assign_artist_release_def map_recording_def)
qed

text \<open>
  C10. \<^verbatim>\<open>process_df\<close> leaves the timestamp column as it is: a row has the four fields
  timestamp, artist, release and recording id, and only the last three are assigned. This
  holds for every I/O module.
\<close>

theorem process_df_keeps_timestamps:
  "map timestamp (process_df io T df) = map timestamp df"
  by (rule nth_equalityI) (simp_all add: length_process_df process_df_nth)

lemma example_df_simps:
  "length example_df = 2"
  "example_df ! 0 = \<lparr>timestamp = 10, artist_MBID = PyNone, release_MBID = PyNone,
       recording_MBID = Str ''R1''\<rparr>"
  "example_df ! Suc 0 = \<lparr>timestamp = 20, artist_MBID = Str ''X'', release_MBID = Str ''Y'',
       recording_MBID = Str ''UNKNOWN''\<rparr>"
  by (simp_all add: example_df_def)

theorem process_df_preserves_rows_witness:
  "length (process_df example_io example_tables example_df) = 2 \<and>
   process_df example_io example_tables example_df ! 1 =
     hd (process_df example_io example_tables [example_df ! 1])"
proof -
  have "(1::nat) < length example_df"
    by (simp add: example_df_simps)
  with process_df_preserves_rows [of example_io example_tables example_df]
  show ?thesis by (simp add: example_df_simps)
qed

text \<open>
  C4. Step 3 (artist/release resolution), for the lookup helper modelled from the spec:
  in every row of the output of \<^verbatim>\<open>process_df\<close>, if the resolved recording id has an
  entry in the artist/release table then the artist and release cells are the pair of that
  entry, and otherwise both are null. \<^verbatim>\<open>process_df\<close> has no error result: a missing
  entry yields the null pair.
\<close>

theorem artist_release_lookup:
  assumes "replace_multi io = spec_replace_multi" and "i < length df"
  shows "(\<forall>s a r. recording_MBID (process_df io T df ! i) = Str s \<and>
            MB_artist_credit_list T s = Some (a, r) \<longrightarrow>
            artist_MBID (process_df io T df ! i) = Str a \<and>
            release_MBID (process_df io T df ! i) = Str r) \<and>
         (no_entry (recording_MBID (process_df io T df ! i)) (MB_artist_credit_list T) \<longrightarrow>
            artist_MBID (process_df io T df ! i) = PyNone \<and>
            release_MBID (process_df io T df ! i) = PyNone)"
proof -
  define z where "z = canonical_step io T (redirect_step io T (recording_MBID (df ! i)))"
  have rec: "recording_MBID (process_df io T df ! i) = z"
    using assms(2) by (simp add: process_df_nth z_def)
  have art: "artist_MBID (process_df io T df ! i) =
      fst (spec_replace_multi z (MB_artist_credit_list T))"
    using assms by (simp add: process_df_nth z_def artist_release_step_def)
  have rel: "release_MBID (process_df io T df ! i) =
      snd (spec_replace_multi z (MB_artist_credit_list T))"
    using assms by (simp add: process_df_nth z_def artist_release_step_def)
  show ?thesis
    unfolding rec art rel
    by (auto simp: spec_replace_multi_def no_entry_def split: cell.splits option.splits)
qed

lemma process_df_example:
  "process_df example_io example_tables example_df =
     [\<lparr>timestamp = 10, artist_MBID = Str ''ART1'', release_MBID = Str ''REL1'',
       recording_MBID = Str ''A1''\<rparr>,
      \<lparr>timestamp = 20, artist_MBID = PyNone, release_MBID = PyNone,
       recording_MBID = Str ''UNKNOWN''\<rparr>]"
  by (simp add: process_df_def Let_def assign_artist_release_def map_recording_def
      example_df_def redirect_step_def canonical_step_def artist_release_step_def
      example_io_simps example_tables_simps in_gid_set_def spec_replace_def
      spec_replace_multi_def)

theorem artist_release_lookup_witness:
  "artist_MBID (process_df example_io example_tables example_df ! 0) = Str ''ART1'' \<and>
   release_MBID (process_df example_io example_tables example_df ! 0) = Str ''REL1'' \<and>
   artist_MBID (process_df example_io example_tables example_df ! 1) = PyNone \<and>
   release_MBID (process_df example_io example_tables example_df ! 1) = PyNone"
proof -
  have io: "replace_multi example_io = spec_replace_multi"
    by (simp add: example_io_simps)
  have r0: "recording_MBID (process_df example_io example_tables example_df ! 0) = Str ''A1'' \<and>
      MB_artist_credit_list example_tables ''A1'' = Some (''ART1'', ''REL1'')"
    by (simp add: process_df_example example_tables_simps)
  have r1: "no_entry (recording_MBID (process_df example_io example_tables example_df ! 1))
      (MB_artist_credit_list example_tables)"
    by (simp add: process_df_example example_tables_simps no_entry_def)
  have l0: "0 < length example_df" and l1: "1 < length example_df"
    by (simp_all add: example_df_simps)
  from artist_release_lookup [OF io l0, of example_tables] r0
  have "artist_MBID (process_df example_io example_tables example_df ! 0) = Str ''ART1'' \<and>
      release_MBID (process_df example_io example_tables example_df ! 0) = Str ''REL1''"
    by blast
  moreover from artist_release_lookup [OF io l1, of example_tables] r1
  have "artist_MBID (process_df example_io example_tables example_df ! 1) = PyNone \<and>
      release_MBID (process_df example_io example_tables example_df ! 1) = PyNone"
    by blast
  ultimately show ?thesis by blast
qed

text \<open>
  C1. For the lookup helpers modelled from the spec: a row whose recording id is in none
  of the identity set, the redirect table, the canonical table and the artist/release
  table keeps its recording id, and its artist and release cells become null.
\<close>

theorem unknown_id_passes_through:
  assumes "replace io = spec_replace" and "replace_multi io = spec_replace_multi"
    and "i < length df"
    and "\<not> in_gid_set (recording_MBID (df ! i)) (rec_gid_set T)"
    and "no_entry (recording_MBID (df ! i)) (MB_rec_redirects T)"
    and "no_entry (recording_MBID (df ! i)) (MB_rec_canonical T)"
    and "no_entry (recording_MBID (df ! i)) (MB_artist_credit_list T)"
  shows "recording_MBID (process_df io T df ! i) = recording_MBID (df ! i) \<and>
         artist_MBID (process_df io T df ! i) = PyNone \<and>
         release_MBID (process_df io T df ! i) = PyNone"
proof -
  let ?x = "recording_MBID (df ! i)"
  have miss: "spec_replace ?x tbl = ?x" if "no_entry ?x tbl" for tbl
    using that by (simp add: spec_replace_def no_entry_def split: cell.splits)
  have step1: "redirect_step io T ?x = ?x"
    using assms(1,4) miss [OF assms(5)] by (simp add: redirect_step_def)
  have step2: "canonical_step io T ?x = ?x"
    using assms(1) miss [OF assms(6)] by (simp add: canonical_step_def)
  have step3: "artist_release_step io T ?x = (PyNone, PyNone)"
    using assms(2,7)
    by (simp add: artist_release_step_def spec_replace_multi_def no_entry_def
        split: cell.splits)
  show ?thesis
    using assms(3) by (simp add: process_df_nth step1 step2 step3)
qed

theorem unknown_id_passes_through_witness:
  "recording_MBID (process_df example_io example_tables example_df ! 1) = Str ''UNKNOWN'' \<and>
   artist_MBID (process_df example_io example_tables example_df ! 1) = PyNone \<and>
   release_MBID (process_df example_io example_tables example_df ! 1) = PyNone"
proof -
  have a: "\<not> in_gid_set (recording_MBID (example_df ! 1)) (rec_gid_set example_tables)"
    by (simp add: example_df_simps in_gid_set_def example_tables_simps)
  have b: "no_entry (recording_MBID (example_df ! 1)) (MB_rec_redirects example_tables)"
    by (simp add: example_df_simps no_entry_def example_tables_simps)
  have c: "no_entry (recording_MBID (example_df ! 1)) (MB_rec_canonical example_tables)"
    by (simp add: example_df_simps no_entry_def example_tables_simps)
  have d: "no_entry (recording_MBID (example_df ! 1)) (MB_artist_credit_list example_tables)"
    by (simp add: example_df_simps no_entry_def example_tables_simps)
  have l: "1 < length example_df"
    by (simp add: example_df_simps)
  from unknown_id_passes_through
    [OF example_io_simps(1) example_io_simps(2) l a b c d]
  show ?thesis by (simp add: example_df_simps)
qed

text \<open>
  The passing through of an unknown id rests on what the lookup helper returns on a miss:
  with a helper that answers a miss with \<^verbatim>\<open>nan\<close>, step 1 turns the unknown id of the
  second row into \<^verbatim>\<open>nan\<close>, and step 2 keeps it.
\<close>

lemma unknown_id_with_nan_helper:
  "recording_MBID (process_df nan_io example_tables example_df ! 1) = NaN"
  by (simp add: process_df_nth example_df_simps redirect_step_def canonical_step_def
      nan_io_simps example_tables_simps in_gid_set_def nan_replace_def)

section \<open>Properties of batching and of the driver\<close>

lemma py_slice_nat: "py_slice xs (int i) (int j) = take (j - i) (drop i xs)"
proof -
  have "py_slice xs (int i) (int j) =
      take (min (length xs) j - min (length xs) i) (drop (min (length xs) i) xs)"
    by (simp add: py_slice_def Let_def nat_diff_distrib' min_def max_def)
  also have "\<dots> = take (j - i) (drop i xs)"
    by (cases "i \<le> length xs"; cases "j \<le> length xs") (simp_all add: min_def)
  finally show ?thesis .
qed

lemma concat_chunks_take:
  "concat (map (\<lambda>k. take c (drop (k * c) xs)) [0..<m]) = take (m * c) xs"
proof (induction m)
  case 0
  show ?case by simp
next
  case (Suc m)
  have "take (m * c) xs @ take c (drop (m * c) xs) = take (m * c + c) xs"
    by (simp add: take_add)
  with Suc show ?case by (simp add: add.commute)
qed

lemma chunker_positive:
  assumes "0 < b"
  shows "chunker xs b =
    Inr (map (\<lambda>k. take (nat b) (drop (k * nat b) xs))
           [0..<(length xs + nat b - 1) div nat b])"
proof -
  obtain c where b: "b = int c" and c: "0 < c"
    using assms by (metis zero_less_imp_eq_int)
  have count: "nat ((int (length xs) + int c - 1) div int c) = (length xs + c - 1) div c"
  proof -
    have e: "int (length xs) + int c - 1 = int (length xs + c - 1)"
      using c by linarith
    have "nat ((int (length xs) + int c - 1) div int c) =
        nat (int (length xs + c - 1) div int c)"
      by (simp only: e)
    also have "\<dots> = nat (int ((length xs + c - 1) div c))"
      by (simp only: zdiv_int)
    also have "\<dots> = (length xs + c - 1) div c"
      by simp
    finally show ?thesis .
  qed
  have slice: "py_slice xs (int k * int c) (int k * int c + int c) =
      take c (drop (k * c) xs)" for k
    using py_slice_nat [of xs "k * c" "k * c + c"] by simp
  show ?thesis
    using c by (simp add: chunker_def py_range_def b count slice)
qed


lemma ceil_div_covers:
  assumes "0 < (c::nat)"
  shows "n \<le> (n + c - 1) div c * c"
proof -
  have "(n + c - 1) div c * c + (n + c - 1) mod c = n + c - 1"
    by (rule div_mult_mod_eq)
  moreover have "(n + c - 1) mod c < c"
    using assms by simp
  ultimately show ?thesis by linarith
qed

lemma ceil_div_last_start:
  assumes "0 < (c::nat)" and "Suc k \<le> (n + c - 1) div c"
  shows "k * c < n"
proof -
  have "Suc k * c \<le> (n + c - 1) div c * c"
    using assms(2) by (rule mult_le_mono1)
  also have "\<dots> \<le> n + c - 1"
    by (rule div_times_less_eq_dividend)
  finally show ?thesis using assms(1) by simp
qed

lemma chunker_partitions:
  assumes "0 < b"
  shows "\<exists>chunks. chunker xs b = Inr chunks \<and> concat chunks = xs \<and>
     (\<forall>k. k < length chunks \<longrightarrow> chunks ! k = take (nat b) (drop (k * nat b) xs)) \<and>
     (\<forall>k. Suc k < length chunks \<longrightarrow> length (chunks ! k) = nat b) \<and>
     (chunks \<noteq> [] \<longrightarrow> 0 < length (last chunks) \<and> length (last chunks) \<le> nat b)"
proof -
  define c where "c = nat b"
  define m where "m = (length xs + c - 1) div c"
  define chunks where "chunks = map (\<lambda>k. take c (drop (k * c) xs)) [0..<m]"
  have c: "0 < c" using assms by (simp add: c_def)
  have run: "chunker xs b = Inr chunks"
    using chunker_positive [OF assms, of xs] by (simp add: chunks_def m_def c_def)
  have len: "length chunks = m" by (simp add: chunks_def)
  have nth: "chunks ! k = take c (drop (k * c) xs)" if "k < m" for k
    using that by (simp add: chunks_def)
  have cat: "concat chunks = xs"
    using ceil_div_covers [OF c, of "length xs"]
    by (simp add: chunks_def concat_chunks_take m_def)
  have full: "length (chunks ! k) = c" if "Suc k < m" for k
  proof -
    have "Suc k * c < length xs"
      using ceil_div_last_start [OF c, of "Suc k" "length xs"] that by (simp add: m_def)
    then show ?thesis using that by (simp add: nth)
  qed
  have last: "0 < length (last chunks) \<and> length (last chunks) \<le> c" if "chunks \<noteq> []"
  proof -
    from that have m: "0 < m" using len by (cases m) auto
    then have "last chunks = chunks ! (m - 1)"
      using that by (simp add: last_conv_nth len)
    moreover have "(m - 1) * c < length xs"
      using ceil_div_last_start [OF c, of "m - 1" "length xs"] m by (simp add: m_def)
    ultimately show ?thesis using m c by (simp add: nth)
  qed
  show ?thesis
    using run cat nth full last by (auto simp: len c_def)
qed

lemma load_chunk_eq:
  "load_chunk io chunk tr = (map (load_path io) chunk, tr @ map Load chunk)"
  by (induction chunk arbitrary: tr) simp_all

lemma write_chunk_eq:
  "write_chunk io (map (pending_process_df io T) (map (load_path io) chunk)) chunk tr =
     (map (\<lambda>path. write_frame io (process_df io T (load_path io path)) path) chunk,
      tr @ process_write_events io T chunk)"
  by (induction chunk arbitrary: tr)
    (simp_all add: process_write_events_def pending_process_df_def)

lemma writes_append: "writes (tr @ tr') = writes tr @ writes tr'"
  by (induction tr rule: writes.induct) simp_all

lemma writes_map_Load: "writes (map Load chunk) = []"
  by (induction chunk) simp_all

lemma writes_process_write_events:
  "writes (process_write_events io T chunk) =
     map (\<lambda>path. (process_df io T (load_path io path), path)) chunk"
  by (induction chunk) (simp_all add: process_write_events_def)

text \<open>
  One turn of the driver's loop, for a non-zero epoch: the files of the batch are loaded,
  then each file is processed and written in turn, then the log entry is made, and the
  log is flushed when \<^verbatim>\<open>file_counter\<close>, advanced by the size of the batch and by one,
  is a multiple of the epoch.
\<close>

lemma driver_loop_step:
  assumes "LOG_EPOCH cfg \<noteq> 0"
  shows "driver_loop io T cfg (chunk # chunks) (tr, n) =
     driver_loop io T cfg chunks
       (tr @ map Load chunk @ process_write_events io T chunk @
          [LogOutput (map (\<lambda>path. write_frame io (process_df io T (load_path io path)) path)
             chunk)] @
          (if (n + int (length chunk) + 1) mod LOG_EPOCH cfg = 0 then [WriteLog] else []),
        n + int (length chunk) + 1)"
  using assms by (simp add: load_chunk_eq write_chunk_eq Let_def del: map_map)

lemma driver_loop_writes:
  assumes "LOG_EPOCH cfg \<noteq> 0"
  shows "\<exists>tr' n'. driver_loop io T cfg chunks (tr, n) = Inr (tr', n') \<and>
     writes tr' = writes tr @
       map (\<lambda>path. (process_df io T (load_path io path), path)) (concat chunks)"
proof (induction chunks arbitrary: tr n)
  case Nil
  show ?case by simp
next
  case (Cons chunk chunks)
  let ?tr' = "tr @ map Load chunk @ process_write_events io T chunk @
     [LogOutput (map (\<lambda>path. write_frame io (process_df io T (load_path io path)) path)
        chunk)] @
     (if (n + int (length chunk) + 1) mod LOG_EPOCH cfg = 0 then [WriteLog] else [])"
  have w: "writes ?tr' = writes tr @
      map (\<lambda>path. (process_df io T (load_path io path), path)) chunk"
    by (simp add: writes_append writes_map_Load writes_process_write_events)
  from Cons.IH [of ?tr' "n + int (length chunk) + 1"]
  show ?case
    unfolding driver_loop_step [OF assms] w by simp
qed

lemma driver_writes:
  assumes "0 < CHUNK_SIZE cfg" and "LOG_EPOCH cfg \<noteq> 0"
  shows "\<exists>tr n. driver io T cfg path_list = Inr (tr, n) \<and>
     writes tr = map (\<lambda>path. (process_df io T (load_path io path), path)) path_list"
proof -
  from chunker_partitions [OF assms(1), of path_list]
  obtain chunks where "chunker path_list (CHUNK_SIZE cfg) = Inr chunks"
    and "concat chunks = path_list" by blast
  with driver_loop_writes [OF assms(2), of io T chunks "[]" 0]
  show ?thesis by (simp add: driver_def)
qed

text \<open>
  C6. For a positive batch size, \<^verbatim>\<open>chunker\<close> returns batches whose concatenation is the
  input list; batch \<open>k\<close> is the slice of \<open>batch_size\<close> elements that starts at
  \<open>k * batch_size\<close>, every batch but the last has exactly \<open>batch_size\<close> elements, and the
  last has between one and \<open>batch_size\<close>. For a positive \<^verbatim>\<open>CHUNK_SIZE\<close> and a non-zero
  \<^verbatim>\<open>LOG_EPOCH\<close> the driver returns, and its calls of \<^verbatim>\<open>io.write_frame\<close> are, in order,
  one per entry of the path list: the table loaded from that path, processed, together
  with that path. This holds for every I/O module.
\<close>

theorem chunker_partitions_driver_writes_once:
  assumes "0 < batch_size" and "0 < CHUNK_SIZE cfg" and "LOG_EPOCH cfg \<noteq> 0"
  shows "(\<exists>chunks. chunker input_list batch_size = Inr chunks \<and>
            concat chunks = input_list \<and>
            (\<forall>k. k < length chunks \<longrightarrow>
               chunks ! k = take (nat batch_size) (drop (k * nat batch_size) input_list)) \<and>
            (\<forall>k. Suc k < length chunks \<longrightarrow> length (chunks ! k) = nat batch_size) \<and>
            (chunks \<noteq> [] \<longrightarrow>
               0 < length (last chunks) \<and> length (last chunks) \<le> nat batch_size)) \<and>
         (\<exists>tr n. driver io T cfg path_list = Inr (tr, n) \<and>
            writes tr = map (\<lambda>path. (process_df io T (load_path io path), path)) path_list \<and>
            map snd (writes tr) = path_list)"
proof (rule conjI)
  show "\<exists>chunks. chunker input_list batch_size = Inr chunks \<and>
            concat chunks = input_list \<and>
            (\<forall>k. k < length chunks \<longrightarrow>
               chunks ! k = take (nat batch_size) (drop (k * nat batch_size) input_list)) \<and>
            (\<forall>k. Suc k < length chunks \<longrightarrow> length (chunks ! k) = nat batch_size) \<and>
            (chunks \<noteq> [] \<longrightarrow>
               0 < length (last chunks) \<and> length (last chunks) \<le> nat batch_size)"
    by (rule chunker_partitions [OF assms(1)])
next
  from driver_writes [OF assms(2,3), of io T path_list]
  obtain tr n where run: "driver io T cfg path_list = Inr (tr, n)"
    and w: "writes tr = map (\<lambda>path. (process_df io T (load_path io path), path)) path_list"
    by blast
  have "map snd (writes tr) = path_list"
    by (simp add: w comp_def)
  with run w show "\<exists>tr n. driver io T cfg path_list = Inr (tr, n) \<and>
      writes tr = map (\<lambda>path. (process_df io T (load_path io path), path)) path_list \<and>
      map snd (writes tr) = path_list"
    by blast
qed

theorem chunker_partitions_driver_writes_once_witness:
  "(\<exists>chunks. chunker [''a'', ''b'', ''c''] 2 = Inr chunks \<and>
      concat chunks = [''a'', ''b'', ''c'']) \<and>
   (\<exists>tr n. driver example_io example_tables \<lparr>CHUNK_SIZE = 2, LOG_EPOCH = 5\<rparr>
        [''a'', ''b'', ''c''] = Inr (tr, n) \<and>
      map snd (writes tr) = [''a'', ''b'', ''c''])"
proof -
  have b: "(0::int) < 2"
    by simp
  have c: "0 < CHUNK_SIZE \<lparr>CHUNK_SIZE = 2, LOG_EPOCH = 5\<rparr>"
    by simp
  have e: "LOG_EPOCH \<lparr>CHUNK_SIZE = 2, LOG_EPOCH = 5\<rparr> \<noteq> 0"
    by simp
  from chunker_partitions_driver_writes_once
    [OF b c e, of "[''a'', ''b'', ''c'']" example_io example_tables "[''a'', ''b'', ''c'']"]
  show ?thesis
    by (elim conjE exE, intro conjI exI) assumption+
qed

text \<open>
  C7. A run of the driver on one batch of two files. Both files are loaded first and the
  log entry comes last, but \<^verbatim>\<open>process_df\<close> runs on the second file only after the first
  file has been written: the \<^verbatim>\<open>map\<close> of step 2 of the loop is lazy, and its calls happen
  inside \<^verbatim>\<open>write_chunk\<close>.
\<close>

theorem driver_writes_first_file_before_processing_second:
  "driver example_io example_tables \<lparr>CHUNK_SIZE = 2, LOG_EPOCH = 5\<rparr> [''a'', ''b''] =
     Inr ([Load ''a'', Load ''b'',
           Process (load_path example_io ''a''),
           Write (process_df example_io example_tables (load_path example_io ''a'')) ''a'',
           Process (load_path example_io ''b''),
           Write (process_df example_io example_tables (load_path example_io ''b'')) ''b'',
           LogOutput [''out/a'', ''out/b'']], 3)"
  by code_simp

text \<open>
  C8. Two runs of the driver on one batch of two files. With an epoch of 2 the log is
  never flushed, although two files have been handled; with an epoch of 3 it is flushed
  after two files. \<^verbatim>\<open>file_counter\<close> is advanced by the size of the batch and then by
  one more, so it counts the files and the batches.
\<close>

theorem driver_flush_is_off_by_batches:
  "flushes_after 0 (trace_of (driver example_io example_tables
       \<lparr>CHUNK_SIZE = 2, LOG_EPOCH = 2\<rparr> [''a'', ''b''])) = [] \<and>
   flushes_after 0 (trace_of (driver example_io example_tables
       \<lparr>CHUNK_SIZE = 2, LOG_EPOCH = 3\<rparr> [''a'', ''b''])) = [2]"
  by code_simp

end
